theory Spec2Isabelle
  imports Main
begin

section \<open>The binding header \<open>crates/glfw3-sys/bindgen/platform/x11.h\<close>\<close>

text \<open>
  The header is a declarative artifact: six typedefs, four object-like macros without a
  body and two include directives. It is embedded twice: as the text of the file, and as
  the list of its lines in abstract syntax. A small front end (typedef table, macro set,
  include log) gives the lines their meaning, with every compile error a value.
\<close>

subsection \<open>C types\<close>

text \<open>
  \<open>CStruct tag None\<close> is a struct that is declared but not defined (incomplete);
  \<open>CStruct tag (Some ms)\<close> is a struct defined with the members \<open>ms\<close>.
\<close>

datatype ctype =
    CVoid
  | CPtr ctype
  | CName string
  | CStruct string "string list option"

text \<open>An incomplete type has no size and no accessible members (C11 6.2.5).\<close>

fun incomplete :: "ctype \<Rightarrow> bool" where
  "incomplete CVoid = True"
| "incomplete (CStruct tag None) = True"
| "incomplete t = False"

fun structurally_defined :: "ctype \<Rightarrow> bool" where
  "structurally_defined (CStruct tag (Some ms)) = True"
| "structurally_defined t = False"

fun is_pointer :: "ctype \<Rightarrow> bool" where
  "is_pointer (CPtr t) = True"
| "is_pointer t = False"

fun pointer_to_incomplete :: "ctype \<Rightarrow> bool" where
  "pointer_to_incomplete (CPtr t) = incomplete t"
| "pointer_to_incomplete t = False"

text \<open>A type mentions no typedef name.\<close>

fun closed :: "ctype \<Rightarrow> bool" where
  "closed (CName n) = False"
| "closed (CPtr t) = closed t"
| "closed t = True"

subsection \<open>The lines of a header\<close>

text \<open>
  \<open>Typedef\<close>, \<open>Define\<close>, \<open>Include\<close> and \<open>Blank\<close> are the lines the header has.
  \<open>FunDef\<close> and \<open>ObjDef\<close> are the external definitions of C (C11 6.9), the only
  lines that would give a translation unit something to run or to store.
\<close>

datatype item =
    Typedef ctype string
  | Define string
  | Include string
  | Blank
  | FunDef ctype string
  | ObjDef ctype string

datatype kind = KTypedef | KDefine | KInclude | KBlank | KFunDef | KObjDef

fun kind_of :: "item \<Rightarrow> kind" where
  "kind_of (Typedef t n) = KTypedef"
| "kind_of (Define m) = KDefine"
| "kind_of (Include p) = KInclude"
| "kind_of Blank = KBlank"
| "kind_of (FunDef t n) = KFunDef"
| "kind_of (ObjDef t n) = KObjDef"

definition glfw3_h :: string where
  "glfw3_h = ''../../vendor/glfw/include/GLFW/glfw3.h''"

definition glfw3native_h :: string where
  "glfw3native_h = ''../../vendor/glfw/include/GLFW/glfw3native.h''"

text \<open>The fifteen lines of \<open>x11.h\<close>, in order.\<close>

definition x11_h :: "item list" where
  "x11_h =
    [Typedef CVoid ''Display'',
     Typedef (CPtr CVoid) ''RRCrtc'',
     Typedef (CPtr CVoid) ''RROutput'',
     Typedef (CPtr CVoid) ''Window'',
     Blank,
     Typedef (CPtr CVoid) ''GLXContext'',
     Typedef (CPtr CVoid) ''GLXWindow'',
     Blank,
     Define ''GLFW_INCLUDE_NONE'',
     Define ''GLFW_NATIVE_INCLUDE_NONE'',
     Define ''GLFW_EXPOSE_NATIVE_X11'',
     Define ''GLFW_EXPOSE_NATIVE_GLX'',
     Blank,
     Include glfw3_h,
     Include glfw3native_h]"

text \<open>The six handle names, in the order of their typedefs.\<close>

definition handle_names :: "string list" where
  "handle_names =
    [''Display'', ''RRCrtc'', ''RROutput'', ''Window'', ''GLXContext'', ''GLXWindow'']"

subsection \<open>The text of the file\<close>

definition newline :: char where
  "newline = CHR 0x0A"

text \<open>The bytes of \<open>x11.h\<close>. The last line has no newline after it.\<close>

definition x11_h_text :: string where
  \<open>x11_h_text =
     ''typedef void Display;'' @ [newline] @
     ''typedef void* RRCrtc;'' @ [newline] @
     ''typedef void* RROutput;'' @ [newline] @
     ''typedef void* Window;'' @ [newline] @
     [newline] @
     ''typedef void* GLXContext;'' @ [newline] @
     ''typedef void* GLXWindow;'' @ [newline] @
     [newline] @
     ''#define GLFW_INCLUDE_NONE'' @ [newline] @
     ''#define GLFW_NATIVE_INCLUDE_NONE'' @ [newline] @
     ''#define GLFW_EXPOSE_NATIVE_X11'' @ [newline] @
     ''#define GLFW_EXPOSE_NATIVE_GLX'' @ [newline] @
     [newline] @
     ''#include "../../vendor/glfw/include/GLFW/glfw3.h"'' @ [newline] @
     ''#include "../../vendor/glfw/include/GLFW/glfw3native.h"''\<close>

text \<open>
  Splitting a text at its newline characters: a text with \<open>n\<close> newlines has \<open>n + 1\<close>
  lines, the last of them the bytes after the last newline.
\<close>

fun lines_of :: "string \<Rightarrow> string list" where
  "lines_of [] = [[]]"
| "lines_of (c # cs) =
     (if c = newline then [] # lines_of cs
      else (case lines_of cs of [] \<Rightarrow> [[c]] | l # ls \<Rightarrow> (c # l) # ls))"

fun render_type :: "ctype \<Rightarrow> string" where
  "render_type CVoid = ''void''"
| "render_type (CPtr t) = render_type t @ ''*''"
| "render_type (CName n) = n"
| "render_type (CStruct tag ms) = ''struct '' @ tag"

text \<open>The concrete syntax of a line, as the header writes it.\<close>

fun render :: "item \<Rightarrow> string" where
  "render (Typedef t n) = ''typedef '' @ render_type t @ '' '' @ n @ '';''"
| "render (Define m) = ''#define '' @ m"
| "render (Include p) = ''#include '' @ [CHR 0x22] @ p @ [CHR 0x22]"
| "render Blank = []"
| "render (FunDef t n) = render_type t @ '' '' @ n @ ''(void) {}''"
| "render (ObjDef t n) = render_type t @ '' '' @ n @ '';''"

subsection \<open>The front end: typedef table, macro set, include log\<close>

datatype cerror =
    Redefinition string
  | UnknownType string
  | IncompleteObject string

record cstate =
  typedefs :: "(string \<times> ctype) list"
  macros :: "string list"
  definitions :: "string list"
  included :: "(string \<times> string list) list"

definition init :: cstate where
  "init = \<lparr>typedefs = [], macros = [], definitions = [], included = []\<rparr>"

text \<open>
  A typedef name is a synonym of the type it was declared with (C11 6.7.8): the table
  holds resolved types, and resolving a type replaces each typedef name by its entry.
\<close>

fun resolve :: "(string \<times> ctype) list \<Rightarrow> ctype \<Rightarrow> ctype option" where
  "resolve env CVoid = Some CVoid"
| "resolve env (CPtr t) = map_option CPtr (resolve env t)"
| "resolve env (CName n) = map_of env n"
| "resolve env (CStruct tag ms) = Some (CStruct tag ms)"

text \<open>
  Declaring a typedef name again is accepted with the same type and is a redefinition
  error with another one (C11 6.7 paragraph 3). Typedef names, functions and objects
  share one name space (C11 6.2.3), so the name of a function or an object cannot become
  a typedef name.
\<close>

definition declare_typedef :: "string \<times> ctype \<Rightarrow> cstate \<Rightarrow> cerror + cstate" where
  "declare_typedef d st =
     (case resolve (typedefs st) (snd d) of
        None \<Rightarrow> Inl (UnknownType (fst d))
      | Some t \<Rightarrow>
          if fst d \<in> set (definitions st) then Inl (Redefinition (fst d))
          else
            (case map_of (typedefs st) (fst d) of
               None \<Rightarrow> Inr (st\<lparr>typedefs := typedefs st @ [(fst d, t)]\<rparr>)
             | Some t0 \<Rightarrow> if t0 = t then Inr st else Inl (Redefinition (fst d))))"

fun declare_all :: "(string \<times> ctype) list \<Rightarrow> cstate \<Rightarrow> cerror + cstate" where
  "declare_all [] st = Inr st"
| "declare_all (d # ds) st =
     (case declare_typedef d st of
        Inl e \<Rightarrow> Inl e
      | Inr st' \<Rightarrow> declare_all ds st')"

text \<open>
  The typedefs that the operating system's headers make, a parameter of the front end:
  those headers belong to the build machine, not to the repository.
\<close>

record os_headers =
  platform_os :: "(string \<times> ctype) list"
  native_os :: "(string \<times> ctype) list"

text \<open>
  Modelled from the spec: the vendored \<open>GLFW/glfw3.h\<close> and \<open>GLFW/glfw3native.h\<close> are
  not part of the sources at hand. The spec's macro surface says of them: the
  include-none guard "suppresses default transitive inclusion of full platform OS
  headers by the vendored library", and the native-include-none guard "suppresses
  default transitive inclusion of full native-interop OS headers". So each of the two
  vendored headers has one guard macro, and pulls in its operating system headers
  exactly when its guard is not defined.
\<close>

definition suppression_guard :: "string \<Rightarrow> string option" where
  "suppression_guard p =
     (if p = glfw3_h then Some ''GLFW_INCLUDE_NONE''
      else if p = glfw3native_h then Some ''GLFW_NATIVE_INCLUDE_NONE''
      else None)"

definition default_includes :: "os_headers \<Rightarrow> string \<Rightarrow> (string \<times> ctype) list" where
  "default_includes os p =
     (if p = glfw3_h then platform_os os
      else if p = glfw3native_h then native_os os
      else [])"

definition vendored :: "os_headers \<Rightarrow> string \<Rightarrow> cstate \<Rightarrow> cerror + cstate" where
  "vendored os p st =
     (case suppression_guard p of
        None \<Rightarrow> Inr st
      | Some g \<Rightarrow> if g \<in> set (macros st) then Inr st
                  else declare_all (default_includes os p) st)"

text \<open>
  Modelled from the spec: its macro surface names four roles, and gives "expose X11" as
  the example of a windowing-backend selector and "expose GLX" as the example of a
  graphics-context selector. The exposure macros of the vendored native-interop header
  share the prefix \<open>GLFW_EXPOSE_NATIVE_\<close>.
\<close>

datatype macro_role = IncludeNone | NativeIncludeNone | WindowingBackend | GraphicsContext

definition macro_role :: "string \<Rightarrow> macro_role option" where
  "macro_role m =
     (if m = ''GLFW_INCLUDE_NONE'' then Some IncludeNone
      else if m = ''GLFW_NATIVE_INCLUDE_NONE'' then Some NativeIncludeNone
      else if m = ''GLFW_EXPOSE_NATIVE_X11'' then Some WindowingBackend
      else if m = ''GLFW_EXPOSE_NATIVE_GLX'' then Some GraphicsContext
      else None)"

definition exposure_macro :: "string \<Rightarrow> bool" where
  "exposure_macro m = (take 19 m = ''GLFW_EXPOSE_NATIVE_'')"

text \<open>
  One line of the header, in the state the lines before it have left. A function or an
  object cannot take the name of a typedef (the compiler reports the name as redeclared
  as a different kind of symbol).
\<close>

fun step :: "os_headers \<Rightarrow> item \<Rightarrow> cstate \<Rightarrow> cerror + cstate" where
  "step os (Typedef t n) st = declare_typedef (n, t) st"
| "step os (Define m) st = Inr (st\<lparr>macros := macros st @ [m]\<rparr>)"
| "step os (Include p) st =
     vendored os p (st\<lparr>included := included st @ [(p, macros st)]\<rparr>)"
| "step os Blank st = Inr st"
| "step os (FunDef t n) st =
     (case resolve (typedefs st) t of
        None \<Rightarrow> Inl (UnknownType n)
      | Some t' \<Rightarrow>
          if map_of (typedefs st) n \<noteq> None then Inl (Redefinition n)
          else Inr (st\<lparr>definitions := definitions st @ [n]\<rparr>))"
| "step os (ObjDef t n) st =
     (case resolve (typedefs st) t of
        None \<Rightarrow> Inl (UnknownType n)
      | Some t' \<Rightarrow>
          if map_of (typedefs st) n \<noteq> None then Inl (Redefinition n)
          else if incomplete t' then Inl (IncompleteObject n)
          else Inr (st\<lparr>definitions := definitions st @ [n]\<rparr>))"

fun run :: "os_headers \<Rightarrow> item list \<Rightarrow> cstate \<Rightarrow> cerror + cstate" where
  "run os [] st = Inr st"
| "run os (i # is) st =
     (case step os i st of
        Inl e \<Rightarrow> Inl e
      | Inr st' \<Rightarrow> run os is st')"

definition compile :: "os_headers \<Rightarrow> item list \<Rightarrow> cerror + cstate" where
  "compile os h = run os h init"

text \<open>The typedef table and the macros the header's own lines leave behind.\<close>

definition x11_typedefs :: "(string \<times> ctype) list" where
  "x11_typedefs =
    [(''Display'', CVoid), (''RRCrtc'', CPtr CVoid), (''RROutput'', CPtr CVoid),
     (''Window'', CPtr CVoid), (''GLXContext'', CPtr CVoid), (''GLXWindow'', CPtr CVoid)]"

definition x11_macros :: "string list" where
  "x11_macros =
    [''GLFW_INCLUDE_NONE'', ''GLFW_NATIVE_INCLUDE_NONE'',
     ''GLFW_EXPOSE_NATIVE_X11'', ''GLFW_EXPOSE_NATIVE_GLX'']"

text \<open>
  Two type names may stand for each other (a value of one passed where the other is
  expected, with no conversion) when they resolve to the same type.
\<close>

definition same_type :: "(string \<times> ctype) list \<Rightarrow> string \<Rightarrow> string \<Rightarrow> bool" where
  "same_type env a b = (map_of env a \<noteq> None \<and> map_of env a = map_of env b)"

fun defined_macros :: "item list \<Rightarrow> string list" where
  "defined_macros [] = []"
| "defined_macros (Define m # is) = m # defined_macros is"
| "defined_macros (i # is) = defined_macros is"

fun declared_typedefs :: "item list \<Rightarrow> (string \<times> ctype) list" where
  "declared_typedefs [] = []"
| "declared_typedefs (Typedef t n # is) = (n, t) # declared_typedefs is"
| "declared_typedefs (i # is) = declared_typedefs is"

text \<open>The state the header's lines leave behind, whatever the operating system's headers.\<close>

definition x11_final :: cstate where
  "x11_final =
     \<lparr>typedefs = x11_typedefs, macros = x11_macros, definitions = [],
      included = [(glfw3_h, x11_macros), (glfw3native_h, x11_macros)]\<rparr>"

text \<open>A build machine whose operating system headers declare no typedef.\<close>

definition no_os :: os_headers where
  "no_os = \<lparr>platform_os = [], native_os = []\<rparr>"

text \<open>
  A build machine with Xlib and GLX: its platform headers declare the display connection
  as a struct of their own, its native-interop headers the rendering context as a pointer
  to one.
\<close>

definition xlib_glx_os :: os_headers where
  "xlib_glx_os =
     \<lparr>platform_os = [(''Display'', CStruct ''_XDisplay'' None)],
      native_os =
        [(''GLXFBConfig'', CPtr (CStruct ''__GLXFBConfigRec'' None)),
         (''GLXContext'', CPtr (CStruct ''__GLXcontextRec'' None))]\<rparr>"

text \<open>
  The order of the header: typedefs, then macro definitions, then include directives,
  with blank lines anywhere. \<open>ordered_from p h\<close> checks that no line of \<open>h\<close> belongs
  to a phase before \<open>p\<close> or before the phase of an earlier line.
\<close>

fun phase :: "kind \<Rightarrow> nat" where
  "phase KTypedef = 0"
| "phase KDefine = 1"
| "phase KInclude = 2"
| "phase k = 3"

fun ordered_from :: "nat \<Rightarrow> item list \<Rightarrow> bool" where
  "ordered_from p [] = True"
| "ordered_from p (Blank # is) = ordered_from p is"
| "ordered_from p (i # is) = (p \<le> phase (kind_of i) \<and> ordered_from (phase (kind_of i)) is)"

text \<open>A line with no runtime content: anything but a function or an object definition.\<close>

fun static :: "item \<Rightarrow> bool" where
  "static (FunDef t n) = False"
| "static (ObjDef t n) = False"
| "static i = True"

text \<open>The header without its two include-suppression macros.\<close>

fun suppression_line :: "item \<Rightarrow> bool" where
  "suppression_line (Define m) =
     (macro_role m = Some IncludeNone \<or> macro_role m = Some NativeIncludeNone)"
| "suppression_line i = False"

definition omit_guards :: "item list \<Rightarrow> item list" where
  "omit_guards h = filter (\<lambda>i. \<not> suppression_line i) h"

text \<open>The header without the definition of one macro.\<close>

definition omit_macro :: "string \<Rightarrow> item list \<Rightarrow> item list" where
  "omit_macro m h = filter (\<lambda>i. i \<noteq> Define m) h"

text \<open>
  Headers that compile on their own use no type name before declaring it:
  \<open>self_contained ns ds\<close> says so of the declarations \<open>ds\<close>, read where the names
  \<open>ns\<close> are declared already.
\<close>

fun names_in :: "ctype \<Rightarrow> string list" where
  "names_in (CName n) = [n]"
| "names_in (CPtr t) = names_in t"
| "names_in t = []"

fun self_contained :: "string list \<Rightarrow> (string \<times> ctype) list \<Rightarrow> bool" where
  "self_contained ns [] = True"
| "self_contained ns (d # ds) =
     (set (names_in (snd d)) \<subseteq> set ns \<and> self_contained (fst d # ns) ds)"

text \<open>
  A declaration conflicts with a typedef table when it gives a name of the table a type
  of its own, other than the table's.
\<close>

fun conflicts :: "(string \<times> ctype) list \<Rightarrow> string \<times> ctype \<Rightarrow> bool" where
  "conflicts env (n, t) =
     (closed t \<and> (case map_of env n of None \<Rightarrow> False | Some t0 \<Rightarrow> t0 \<noteq> t))"

definition conflicting :: "(string \<times> ctype) list \<Rightarrow> (string \<times> ctype) list \<Rightarrow> bool" where
  "conflicting env ds = list_ex (conflicts env) ds"

text \<open>The five handles declared as \<open>void*\<close>.\<close>

definition pointer_handles :: "string list" where
  "pointer_handles = [''RRCrtc'', ''RROutput'', ''Window'', ''GLXContext'', ''GLXWindow'']"

text \<open>An entry of the include log whose vendored header found its guard defined.\<close>

fun guarded :: "string \<times> string list \<Rightarrow> bool" where
  "guarded (p, ms) = (case suppression_guard p of None \<Rightarrow> False | Some g \<Rightarrow> g \<in> set ms)"

text \<open>
  The state in which a header with the six typedefs reaches the default includes of a
  vendored header: the macros \<open>ms\<close> defined, the include log \<open>inc\<close>.
\<close>

definition handles_declared :: "string list \<Rightarrow> (string \<times> string list) list \<Rightarrow> cstate" where
  "handles_declared ms inc =
     \<lparr>typedefs = x11_typedefs, macros = ms, definitions = [], included = inc\<rparr>"

definition expose_only :: "string list" where
  "expose_only = [''GLFW_EXPOSE_NATIVE_X11'', ''GLFW_EXPOSE_NATIVE_GLX'']"

definition before_includes :: cstate where
  "before_includes = handles_declared expose_only [(glfw3_h, expose_only)]"

section \<open>Properties\<close>

subsection \<open>Evaluating the header\<close>

lemmas x11_defs = x11_h_def x11_final_def x11_typedefs_def x11_macros_def glfw3_h_def
  glfw3native_h_def

lemma compile_x11_h: "compile os x11_h = Inr x11_final"
  by (simp add: compile_def init_def declare_typedef_def vendored_def
      suppression_guard_def x11_defs)

lemma x11_h_text_lines: "lines_of x11_h_text = map render x11_h"
  by (simp add: x11_h_text_def x11_h_def newline_def glfw3_h_def glfw3native_h_def)

lemma run_append:
  "run os (a @ b) st = (case run os a st of Inl e \<Rightarrow> Inl e | Inr st' \<Rightarrow> run os b st')"
  by (induction a arbitrary: st) (auto split: sum.splits)

subsection \<open>What a declaration leaves unchanged\<close>

lemma closed_resolve: "closed t \<Longrightarrow> resolve env t = Some t"
  by (induction t) auto

lemma declare_typedef_keeps:
  "declare_typedef d st = Inr st' \<Longrightarrow> map_of (typedefs st) n = Some t0 \<Longrightarrow>
   map_of (typedefs st') n = Some t0"
  by (auto simp: declare_typedef_def map_add_Some_iff split: option.splits if_splits)

lemma declare_typedef_rest:
  "declare_typedef d st = Inr st' \<Longrightarrow>
   macros st' = macros st \<and> definitions st' = definitions st \<and> included st' = included st"
  by (auto simp: declare_typedef_def split: option.splits if_splits)

lemma declare_all_keeps:
  "declare_all ds st = Inr st' \<Longrightarrow> map_of (typedefs st) n = Some t0 \<Longrightarrow>
   map_of (typedefs st') n = Some t0"
proof (induction ds arbitrary: st)
  case Nil
  then show ?case by simp
next
  case (Cons d ds)
  then show ?case
    by (auto split: sum.splits dest: declare_typedef_keeps)
qed

lemma declare_all_rest:
  "declare_all ds st = Inr st' \<Longrightarrow>
   macros st' = macros st \<and> definitions st' = definitions st \<and> included st' = included st"
proof (induction ds arbitrary: st)
  case Nil
  then show ?case by simp
next
  case (Cons d ds)
  then show ?case
    by (auto split: sum.splits dest: declare_typedef_rest)
qed

lemma vendored_rest:
  "vendored os p st = Inr st' \<Longrightarrow>
   macros st' = macros st \<and> definitions st' = definitions st \<and> included st' = included st"
  by (auto simp: vendored_def split: option.splits if_splits dest: declare_all_rest)

subsection \<open>Static lines define nothing\<close>

lemma step_static:
  "static i \<Longrightarrow> step os i st = Inr st' \<Longrightarrow> definitions st' = definitions st"
  by (cases i) (auto dest: declare_typedef_rest vendored_rest)

lemma run_static:
  "list_all static h \<Longrightarrow> run os h st = Inr st' \<Longrightarrow> definitions st' = definitions st"
proof (induction h arbitrary: st)
  case Nil
  then show ?case by simp
next
  case (Cons i h)
  then show ?case
    by (auto split: sum.splits dest: step_static)
qed

subsection \<open>In an ordered header every include sees every macro\<close>

lemma ordered_no_defines: "ordered_from p h \<Longrightarrow> 2 \<le> p \<Longrightarrow> defined_macros h = []"
  by (induction p h rule: ordered_from.induct) auto

lemma run_ordered:
  "ordered_from p h \<Longrightarrow> run os h st = Inr st' \<Longrightarrow>
   \<exists>new. included st' = included st @ new \<and>
     list_all (\<lambda>e. set (macros st) \<union> set (defined_macros h) \<subseteq> set (snd e)) new"
proof (induction h arbitrary: p st)
  case Nil
  then show ?case by simp
next
  case (Cons i h)
  from Cons.prems(2) obtain st1
    where s1: "step os i st = Inr st1" and r: "run os h st1 = Inr st'"
    by (auto split: sum.splits)
  show ?case
  proof (cases i)
    case (Typedef t n)
    with s1 have eq: "macros st1 = macros st" "included st1 = included st"
      by (auto dest: declare_typedef_rest)
    from Cons.prems(1) Typedef have "ordered_from 0 h" by simp
    from Cons.IH [OF this r] eq Typedef show ?thesis by simp
  next
    case (Define m)
    with s1 have eq: "macros st1 = macros st @ [m]" "included st1 = included st"
      by auto
    from Cons.prems(1) Define have "ordered_from 1 h" by simp
    from Cons.IH [OF this r] obtain new where
      n: "included st' = included st1 @ new"
         "list_all (\<lambda>e. set (macros st1) \<union> set (defined_macros h) \<subseteq> set (snd e)) new"
      by blast
    from n(2) eq have
      "list_all (\<lambda>e. set (macros st) \<union> set (defined_macros (i # h)) \<subseteq> set (snd e)) new"
      by (auto simp: Define list_all_iff)
    with n(1) eq show ?thesis by auto
  next
    case (Include q)
    with s1 have eq: "macros st1 = macros st" "included st1 = included st @ [(q, macros st)]"
      by (auto dest: vendored_rest)
    from Cons.prems(1) Include have o: "ordered_from 2 h" by simp
    then have nd: "defined_macros h = []" by (rule ordered_no_defines) simp
    from Cons.IH [OF o r] obtain new where
      n: "included st' = included st1 @ new"
         "list_all (\<lambda>e. set (macros st1) \<union> set (defined_macros h) \<subseteq> set (snd e)) new"
      by blast
    from n(2) eq nd have
      "list_all (\<lambda>e. set (macros st) \<union> set (defined_macros (i # h)) \<subseteq> set (snd e))
         ((q, macros st) # new)"
      by (simp add: Include)
    moreover from n(1) eq have "included st' = included st @ ((q, macros st) # new)"
      by simp
    ultimately show ?thesis by blast
  next
    case Blank
    with s1 have eq: "st1 = st" by simp
    from Cons.prems(1) Blank have "ordered_from p h" by simp
    from Cons.IH [OF this r] eq Blank show ?thesis by simp
  next
    case (FunDef t n)
    with s1 have eq: "macros st1 = macros st" "included st1 = included st"
      by (auto split: option.splits if_splits)
    from Cons.prems(1) FunDef have "ordered_from 3 h" by simp
    from Cons.IH [OF this r] eq FunDef show ?thesis by simp
  next
    case (ObjDef t n)
    with s1 have eq: "macros st1 = macros st" "included st1 = included st"
      by (auto split: option.splits if_splits)
    from Cons.prems(1) ObjDef have "ordered_from 3 h" by simp
    from Cons.IH [OF this r] eq ObjDef show ?thesis by simp
  qed
qed

subsection \<open>A conflicting declaration stops the front end\<close>

lemma declare_typedef_conflict:
  "conflicts (typedefs st) d \<Longrightarrow> declare_typedef d st = Inl (Redefinition (fst d))"
  by (cases d) (auto simp: declare_typedef_def closed_resolve split: option.splits)

lemma conflicts_keeps:
  assumes "declare_typedef d st = Inr st'" and "conflicts (typedefs st) c"
  shows "conflicts (typedefs st') c"
  using assms by (cases c) (auto split: option.splits dest: declare_typedef_keeps)

lemma conflicts_keeps_all:
  "declare_all ds st = Inr st' \<Longrightarrow> conflicts (typedefs st) c \<Longrightarrow> conflicts (typedefs st') c"
  by (cases c) (auto split: option.splits dest: declare_all_keeps)

lemma declare_all_conflict:
  "list_ex (conflicts (typedefs st)) ds \<Longrightarrow> \<exists>e. declare_all ds st = Inl e"
proof (induction ds arbitrary: st)
  case Nil
  then show ?case by simp
next
  case (Cons d ds)
  show ?case
  proof (cases "declare_typedef d st")
    case (Inl e)
    then show ?thesis by simp
  next
    case (Inr st')
    have "\<not> conflicts (typedefs st) d"
      using Inr declare_typedef_conflict by fastforce
    with Cons.prems have "list_ex (conflicts (typedefs st)) ds" by simp
    then have "list_ex (conflicts (typedefs st')) ds"
      using conflicts_keeps [OF Inr] by (auto simp: list_ex_iff)
    from Cons.IH [OF this] Inr show ?thesis by simp
  qed
qed

lemma omit_guards_x11_h:
  "omit_guards x11_h =
     [Typedef CVoid ''Display'', Typedef (CPtr CVoid) ''RRCrtc'',
      Typedef (CPtr CVoid) ''RROutput'', Typedef (CPtr CVoid) ''Window'', Blank,
      Typedef (CPtr CVoid) ''GLXContext'', Typedef (CPtr CVoid) ''GLXWindow'', Blank,
      Define ''GLFW_EXPOSE_NATIVE_X11'', Define ''GLFW_EXPOSE_NATIVE_GLX'', Blank,
      Include glfw3_h] @ [Include glfw3native_h]"
  by (simp add: omit_guards_def x11_h_def macro_role_def)

lemma run_to_first_include:
  "run os
     [Typedef CVoid ''Display'', Typedef (CPtr CVoid) ''RRCrtc'',
      Typedef (CPtr CVoid) ''RROutput'', Typedef (CPtr CVoid) ''Window'', Blank,
      Typedef (CPtr CVoid) ''GLXContext'', Typedef (CPtr CVoid) ''GLXWindow'', Blank,
      Define ''GLFW_EXPOSE_NATIVE_X11'', Define ''GLFW_EXPOSE_NATIVE_GLX'', Blank,
      Include glfw3_h] init =
   declare_all (platform_os os) before_includes"
  by (simp add: init_def declare_typedef_def vendored_def suppression_guard_def
      default_includes_def before_includes_def handles_declared_def expose_only_def
      x11_typedefs_def glfw3_h_def split: sum.splits)

lemma compile_omit_guards:
  "compile os (omit_guards x11_h) =
     (case declare_all (platform_os os) before_includes of
        Inl e \<Rightarrow> Inl e
      | Inr st \<Rightarrow>
          declare_all (native_os os)
            (st\<lparr>included := included st @ [(glfw3native_h, macros st)]\<rparr>))"
proof (cases "declare_all (platform_os os) before_includes")
  case (Inl e)
  then show ?thesis
    unfolding compile_def omit_guards_x11_h run_append run_to_first_include
    by simp
next
  case (Inr st)
  then have "macros st = macros before_includes"
    by (simp add: declare_all_rest)
  then have "''GLFW_NATIVE_INCLUDE_NONE'' \<notin> set (macros st)"
    by (simp add: before_includes_def handles_declared_def expose_only_def)
  with Inr show ?thesis
    unfolding compile_def omit_guards_x11_h run_append run_to_first_include
    by (simp add: vendored_def suppression_guard_def default_includes_def glfw3_h_def
        glfw3native_h_def split: sum.splits)
qed

subsection \<open>Self-contained headers fail by redefinition only\<close>

lemma names_resolve:
  "set (names_in t) \<subseteq> fst ` set env \<Longrightarrow> \<exists>t'. resolve env t = Some t'"
proof (induction t)
  case (CName n)
  then have "map_of env n \<noteq> None"
    by (simp add: map_of_eq_None_iff)
  then show ?case by auto
qed auto

lemma declare_typedef_outcome:
  assumes "set (names_in (snd d)) \<subseteq> fst ` set (typedefs st)"
  shows "declare_typedef d st = Inl (Redefinition (fst d)) \<or>
         (\<exists>st'. declare_typedef d st = Inr st')"
proof -
  from names_resolve [OF assms] obtain t where "resolve (typedefs st) (snd d) = Some t"
    by blast
  then show ?thesis
    by (simp add: declare_typedef_def split: option.splits)
qed

lemma declare_typedef_names:
  assumes "declare_typedef d st = Inr st'"
  shows "insert (fst d) (fst ` set (typedefs st)) \<subseteq> fst ` set (typedefs st')"
proof -
  have "fst d \<in> fst ` set (typedefs st)" if "map_of (typedefs st) (fst d) = Some t0" for t0
    using that by (metis map_of_eq_None_iff option.distinct(1))
  with assms show ?thesis
    by (auto simp: declare_typedef_def split: option.splits if_splits)
qed

lemma declare_all_names:
  "declare_all ds st = Inr st' \<Longrightarrow> fst ` set (typedefs st) \<subseteq> fst ` set (typedefs st')"
proof (induction ds arbitrary: st)
  case Nil
  then show ?case by simp
next
  case (Cons d ds)
  from Cons.prems obtain st1
    where d: "declare_typedef d st = Inr st1" and r: "declare_all ds st1 = Inr st'"
    by (auto split: sum.splits)
  from declare_typedef_names [OF d] Cons.IH [OF r] show ?case by blast
qed

lemma self_contained_mono:
  "self_contained ns ds \<Longrightarrow> set ns \<subseteq> set ns' \<Longrightarrow> self_contained ns' ds"
proof (induction ds arbitrary: ns ns')
  case Nil
  then show ?case by simp
next
  case (Cons d ds)
  from Cons.prems have "self_contained (fst d # ns) ds" and "set (fst d # ns) \<subseteq> set (fst d # ns')"
    by auto
  then have "self_contained (fst d # ns') ds" by (rule Cons.IH)
  with Cons.prems show ?case by auto
qed

lemma declare_all_outcome:
  "self_contained ns ds \<Longrightarrow> set ns \<subseteq> fst ` set (typedefs st) \<Longrightarrow>
   (\<exists>st'. declare_all ds st = Inr st') \<or> (\<exists>n. declare_all ds st = Inl (Redefinition n))"
proof (induction ds arbitrary: ns st)
  case Nil
  then show ?case by simp
next
  case (Cons d ds)
  from Cons.prems have "set (names_in (snd d)) \<subseteq> fst ` set (typedefs st)"
    by auto
  from declare_typedef_outcome [OF this] show ?case
  proof
    assume "declare_typedef d st = Inl (Redefinition (fst d))"
    then show ?thesis by simp
  next
    assume "\<exists>st'. declare_typedef d st = Inr st'"
    then obtain st1 where d: "declare_typedef d st = Inr st1" by blast
    from declare_typedef_names [OF d] Cons.prems(2)
    have "set (fst d # ns) \<subseteq> fst ` set (typedefs st1)" by auto
    moreover from Cons.prems(1) have "self_contained (fst d # ns) ds" by simp
    ultimately have
      "(\<exists>st'. declare_all ds st1 = Inr st') \<or> (\<exists>n. declare_all ds st1 = Inl (Redefinition n))"
      by (rule Cons.IH [rotated])
    with d show ?thesis by simp
  qed
qed

lemma declare_all_redefinition:
  assumes "self_contained ns ds" and "set ns \<subseteq> fst ` set (typedefs st)"
    and "list_ex (conflicts (typedefs st)) ds"
  shows "\<exists>n. declare_all ds st = Inl (Redefinition n)"
  using declare_all_outcome [OF assms(1,2)] declare_all_conflict [OF assms(3)] by auto

lemma handle_names_declared:
  "set handle_names \<subseteq> fst ` set (typedefs (handles_declared ms inc))"
  by (simp add: handle_names_def handles_declared_def x11_typedefs_def)

subsection \<open>The header without one of its guards\<close>

lemma omit_include_none_x11_h:
  "omit_macro ''GLFW_INCLUDE_NONE'' x11_h =
     [Typedef CVoid ''Display'', Typedef (CPtr CVoid) ''RRCrtc'',
      Typedef (CPtr CVoid) ''RROutput'', Typedef (CPtr CVoid) ''Window'', Blank,
      Typedef (CPtr CVoid) ''GLXContext'', Typedef (CPtr CVoid) ''GLXWindow'', Blank,
      Define ''GLFW_NATIVE_INCLUDE_NONE'',
      Define ''GLFW_EXPOSE_NATIVE_X11'', Define ''GLFW_EXPOSE_NATIVE_GLX'', Blank,
      Include glfw3_h] @ [Include glfw3native_h]"
  by (simp add: omit_macro_def x11_h_def)

lemma run_to_first_include_native_guarded:
  "run os
     [Typedef CVoid ''Display'', Typedef (CPtr CVoid) ''RRCrtc'',
      Typedef (CPtr CVoid) ''RROutput'', Typedef (CPtr CVoid) ''Window'', Blank,
      Typedef (CPtr CVoid) ''GLXContext'', Typedef (CPtr CVoid) ''GLXWindow'', Blank,
      Define ''GLFW_NATIVE_INCLUDE_NONE'',
      Define ''GLFW_EXPOSE_NATIVE_X11'', Define ''GLFW_EXPOSE_NATIVE_GLX'', Blank,
      Include glfw3_h] init =
   declare_all (platform_os os)
     (handles_declared (''GLFW_NATIVE_INCLUDE_NONE'' # expose_only)
        [(glfw3_h, ''GLFW_NATIVE_INCLUDE_NONE'' # expose_only)])"
  by (simp add: init_def declare_typedef_def vendored_def suppression_guard_def
      default_includes_def handles_declared_def expose_only_def
      x11_typedefs_def glfw3_h_def split: sum.splits)

lemma compile_omit_include_none:
  "compile os (omit_macro ''GLFW_INCLUDE_NONE'' x11_h) =
     (case declare_all (platform_os os)
             (handles_declared (''GLFW_NATIVE_INCLUDE_NONE'' # expose_only)
                [(glfw3_h, ''GLFW_NATIVE_INCLUDE_NONE'' # expose_only)]) of
        Inl e \<Rightarrow> Inl e
      | Inr st \<Rightarrow> Inr (st\<lparr>included := included st @ [(glfw3native_h, macros st)]\<rparr>))"
proof (cases "declare_all (platform_os os)
             (handles_declared (''GLFW_NATIVE_INCLUDE_NONE'' # expose_only)
                [(glfw3_h, ''GLFW_NATIVE_INCLUDE_NONE'' # expose_only)])")
  case (Inl e)
  then show ?thesis
    unfolding compile_def omit_include_none_x11_h run_append
      run_to_first_include_native_guarded
    by simp
next
  case (Inr st)
  then have "macros st = ''GLFW_NATIVE_INCLUDE_NONE'' # expose_only"
    by (simp add: declare_all_rest handles_declared_def)
  then have "''GLFW_NATIVE_INCLUDE_NONE'' \<in> set (macros st)"
    by simp
  with Inr show ?thesis
    unfolding compile_def omit_include_none_x11_h run_append
      run_to_first_include_native_guarded
    by (simp add: vendored_def suppression_guard_def glfw3_h_def glfw3native_h_def)
qed

lemma compile_omit_native_include_none:
  "compile os (omit_macro ''GLFW_NATIVE_INCLUDE_NONE'' x11_h) =
     declare_all (native_os os)
       (handles_declared (''GLFW_INCLUDE_NONE'' # expose_only)
          [(glfw3_h, ''GLFW_INCLUDE_NONE'' # expose_only),
           (glfw3native_h, ''GLFW_INCLUDE_NONE'' # expose_only)])"
  by (simp add: compile_def omit_macro_def x11_h_def init_def declare_typedef_def
      vendored_def suppression_guard_def default_includes_def handles_declared_def
      expose_only_def x11_typedefs_def glfw3_h_def glfw3native_h_def split: sum.splits)

section \<open>The claims\<close>

text \<open>
  C1, as stated, fails: \<open>RRCrtc\<close> and \<open>Window\<close> are different handle kinds, and both
  are synonyms of \<open>void*\<close>, so a value of one is accepted where the other is expected.
\<close>

theorem pointer_handles_interchangeable:
  "''RRCrtc'' \<noteq> ''Window'' \<and> compile no_os x11_h = Inr x11_final \<and>
   same_type (typedefs x11_final) ''RRCrtc'' ''Window''"
  by (simp add: compile_x11_h) (simp add: x11_defs same_type_def)

text \<open>
  C1, amended: the header declares six typedefs with pairwise distinct names. They are
  not six types: \<open>RRCrtc\<close>, \<open>RROutput\<close>, \<open>Window\<close>, \<open>GLXContext\<close> and \<open>GLXWindow\<close>
  all stand for \<open>void*\<close>, so each of these five may stand for each other; only
  \<open>Display\<close>, which stands for \<open>void\<close>, is a type of its own.
\<close>

theorem handle_names_distinct_types_shared:
  "compile os x11_h = Inr x11_final \<and>
   map fst (typedefs x11_final) = handle_names \<and>
   distinct handle_names \<and>
   list_all (\<lambda>a. list_all (same_type (typedefs x11_final) a) pointer_handles)
     pointer_handles \<and>
   list_all (\<lambda>b. \<not> same_type (typedefs x11_final) ''Display'' b) pointer_handles"
  by (simp add: compile_x11_h)
     (simp add: x11_defs same_type_def handle_names_def pointer_handles_def)

text \<open>
  C2, as stated, fails at \<open>Display\<close>: its typedef is \<open>void\<close>, which is not a pointer
  type.
\<close>

theorem display_is_not_a_pointer:
  "compile no_os x11_h = Inr x11_final \<and>
   map_option is_pointer (map_of (typedefs x11_final) ''Display'') = Some False"
  by (simp add: compile_x11_h) (simp add: x11_defs)

text \<open>
  C2, amended: no handle is declared as a structurally-defined type. Five of the six
  typedefs (\<open>RRCrtc\<close>, \<open>RROutput\<close>, \<open>Window\<close>, \<open>GLXContext\<close>, \<open>GLXWindow\<close>) are
  pointers to the incomplete type \<open>void\<close>; \<open>Display\<close> is not a pointer: it is the
  incomplete type \<open>void\<close> itself.
\<close>

theorem handles_incomplete_or_pointer_to_incomplete:
  "compile os x11_h = Inr x11_final \<and>
   map (\<lambda>n. map_option pointer_to_incomplete (map_of (typedefs x11_final) n)) handle_names =
     [Some False, Some True, Some True, Some True, Some True, Some True] \<and>
   map_option incomplete (map_of (typedefs x11_final) ''Display'') = Some True \<and>
   list_all (\<lambda>d. \<not> structurally_defined (snd d)) (declared_typedefs x11_h)"
  by (simp add: compile_x11_h) (simp add: x11_defs handle_names_def)

text \<open>
  C3: among the macros the header defines, those with the exposure prefix are exactly
  \<open>GLFW_EXPOSE_NATIVE_X11\<close> and \<open>GLFW_EXPOSE_NATIVE_GLX\<close>, each defined once: one
  windowing-backend selector, one graphics-context selector, and no other exposure
  macro. They are the macros in force when the header has been read.
\<close>

theorem one_windowing_one_context_exposure:
  "filter exposure_macro (defined_macros x11_h) =
     [''GLFW_EXPOSE_NATIVE_X11'', ''GLFW_EXPOSE_NATIVE_GLX''] \<and>
   filter (\<lambda>m. macro_role m = Some WindowingBackend) (defined_macros x11_h) =
     [''GLFW_EXPOSE_NATIVE_X11''] \<and>
   filter (\<lambda>m. macro_role m = Some GraphicsContext) (defined_macros x11_h) =
     [''GLFW_EXPOSE_NATIVE_GLX''] \<and>
   compile os x11_h = Inr x11_final \<and>
   macros x11_final = defined_macros x11_h"
  by (simp add: compile_x11_h) (simp add: x11_defs exposure_macro_def macro_role_def)

text \<open>
  C5: the lines of the header that are not blank are six typedefs, then four macro
  definitions, then two include directives, so the header is ordered; and each of the
  two vendored headers is included with all four macros defined.
\<close>

theorem typedefs_then_macros_then_includes:
  "ordered_from 0 x11_h \<and>
   map kind_of (filter (\<lambda>i. i \<noteq> Blank) x11_h) =
     [KTypedef, KTypedef, KTypedef, KTypedef, KTypedef, KTypedef,
      KDefine, KDefine, KDefine, KDefine, KInclude, KInclude] \<and>
   compile os x11_h = Inr x11_final \<and>
   map fst (included x11_final) = [glfw3_h, glfw3native_h] \<and>
   list_all (\<lambda>e. set (defined_macros x11_h) \<subseteq> set (snd e)) (included x11_final) \<and>
   defined_macros x11_h =
     [''GLFW_INCLUDE_NONE'', ''GLFW_NATIVE_INCLUDE_NONE'',
      ''GLFW_EXPOSE_NATIVE_X11'', ''GLFW_EXPOSE_NATIVE_GLX'']"
proof -
  have o: "ordered_from 0 x11_h"
    by (simp add: x11_h_def)
  have r: "run os x11_h init = Inr x11_final"
    using compile_x11_h [of os] by (simp add: compile_def)
  from run_ordered [OF o r]
  have "list_all (\<lambda>e. set (defined_macros x11_h) \<subseteq> set (snd e)) (included x11_final)"
    by (auto simp: init_def list_all_iff)
  with o show ?thesis
    by (simp add: compile_x11_h) (simp add: x11_defs)
qed

text \<open>
  C6: the header defines one include-none guard, \<open>GLFW_INCLUDE_NONE\<close>, and one
  native-include-none guard, \<open>GLFW_NATIVE_INCLUDE_NONE\<close>, each once. Both vendored
  headers are included with their guard already defined, so no typedef of the operating
  system's headers is pulled in: the typedefs in force are the header's own six.
\<close>

theorem suppression_guards_defined_before_includes:
  "filter (\<lambda>m. macro_role m = Some IncludeNone) (defined_macros x11_h) =
     [''GLFW_INCLUDE_NONE''] \<and>
   filter (\<lambda>m. macro_role m = Some NativeIncludeNone) (defined_macros x11_h) =
     [''GLFW_NATIVE_INCLUDE_NONE''] \<and>
   compile os x11_h = Inr x11_final \<and>
   map fst (included x11_final) = [glfw3_h, glfw3native_h] \<and>
   list_all guarded (included x11_final) \<and>
   typedefs x11_final = declared_typedefs x11_h"
  by (simp add: compile_x11_h) (simp add: x11_defs macro_role_def suppression_guard_def)

text \<open>
  C7: every line of the header is a typedef, a macro definition, an include directive or
  blank. None is a function or an object definition, so the translation unit the header
  makes holds no definition: the only outcomes are the two of the front end, an error or
  the tables of typedefs, macros and includes.
\<close>

theorem header_has_no_runtime_content:
  "list_all static x11_h \<and>
   list_all (\<lambda>i. kind_of i = KTypedef \<or> kind_of i = KDefine \<or> kind_of i = KInclude \<or>
                 kind_of i = KBlank) x11_h \<and>
   filter (\<lambda>i. kind_of i = KFunDef \<or> kind_of i = KObjDef) x11_h = [] \<and>
   compile os x11_h = Inr x11_final \<and>
   definitions x11_final = []"
proof -
  have s: "list_all static x11_h"
    by (simp add: x11_h_def)
  have "definitions x11_final = definitions init"
    using run_static [OF s] compile_x11_h [of os] by (simp add: compile_def)
  then have "definitions x11_final = []"
    by (simp add: init_def)
  with s show ?thesis
    by (simp add: compile_x11_h) (simp add: x11_h_def)
qed

text \<open>
  C8: take operating system headers that compile on their own. When the headers pulled
  in by \<open>glfw3.h\<close> give one of the six handle names a type of their own, other than
  the header's stand-in, the header without \<open>GLFW_INCLUDE_NONE\<close> stops with a
  redefinition error; when those pulled in by \<open>glfw3native.h\<close> do, so does the header
  without \<open>GLFW_NATIVE_INCLUDE_NONE\<close>; and when either do, so does the header
  without both. The header as it is compiles.
\<close>

theorem omitted_guards_fail_to_compile:
  assumes "self_contained handle_names (platform_os os)"
    and "self_contained handle_names (native_os os)"
  shows
    "(conflicting (declared_typedefs x11_h) (platform_os os) \<longrightarrow>
        (\<exists>n. compile os (omit_macro ''GLFW_INCLUDE_NONE'' x11_h) = Inl (Redefinition n))) \<and>
     (conflicting (declared_typedefs x11_h) (native_os os) \<longrightarrow>
        (\<exists>n. compile os (omit_macro ''GLFW_NATIVE_INCLUDE_NONE'' x11_h) =
              Inl (Redefinition n))) \<and>
     (conflicting (declared_typedefs x11_h) (platform_os os @ native_os os) \<longrightarrow>
        (\<exists>n. compile os (omit_guards x11_h) = Inl (Redefinition n))) \<and>
     compile os x11_h = Inr x11_final"
proof -
  have env: "typedefs (handles_declared ms inc) = declared_typedefs x11_h" for ms inc
    by (simp add: x11_h_def handles_declared_def x11_typedefs_def)
  have one: "\<exists>n. compile os (omit_macro ''GLFW_INCLUDE_NONE'' x11_h) = Inl (Redefinition n)"
    if "conflicting (declared_typedefs x11_h) (platform_os os)"
  proof -
    let ?st = "handles_declared (''GLFW_NATIVE_INCLUDE_NONE'' # expose_only)
                 [(glfw3_h, ''GLFW_NATIVE_INCLUDE_NONE'' # expose_only)]"
    from that have "list_ex (conflicts (typedefs ?st)) (platform_os os)"
      by (simp add: conflicting_def env)
    from declare_all_redefinition [OF assms(1) handle_names_declared this]
    show ?thesis
      by (auto simp: compile_omit_include_none)
  qed
  have two:
    "\<exists>n. compile os (omit_macro ''GLFW_NATIVE_INCLUDE_NONE'' x11_h) = Inl (Redefinition n)"
    if "conflicting (declared_typedefs x11_h) (native_os os)"
  proof -
    let ?st = "handles_declared (''GLFW_INCLUDE_NONE'' # expose_only)
                 [(glfw3_h, ''GLFW_INCLUDE_NONE'' # expose_only),
                  (glfw3native_h, ''GLFW_INCLUDE_NONE'' # expose_only)]"
    from that have "list_ex (conflicts (typedefs ?st)) (native_os os)"
      by (simp add: conflicting_def env)
    from declare_all_redefinition [OF assms(2) handle_names_declared this]
    show ?thesis
      by (simp add: compile_omit_native_include_none)
  qed
  have both: "\<exists>n. compile os (omit_guards x11_h) = Inl (Redefinition n)"
    if c: "conflicting (declared_typedefs x11_h) (platform_os os @ native_os os)"
  proof -
    have names: "set handle_names \<subseteq> fst ` set (typedefs before_includes)"
      unfolding before_includes_def by (rule handle_names_declared)
    from declare_all_outcome [OF assms(1) names] show ?thesis
    proof
      assume "\<exists>n. declare_all (platform_os os) before_includes = Inl (Redefinition n)"
      then show ?thesis by (auto simp: compile_omit_guards)
    next
      assume "\<exists>st. declare_all (platform_os os) before_includes = Inr st"
      then obtain st where r: "declare_all (platform_os os) before_includes = Inr st"
        by blast
      let ?st = "st\<lparr>included := included st @ [(glfw3native_h, macros st)]\<rparr>"
      have "\<not> list_ex (conflicts (typedefs before_includes)) (platform_os os)"
        using r declare_all_conflict by fastforce
      with c have "list_ex (conflicts (typedefs before_includes)) (native_os os)"
        by (simp add: conflicting_def before_includes_def env)
      then have "list_ex (conflicts (typedefs ?st)) (native_os os)"
        using conflicts_keeps_all [OF r] by (auto simp: list_ex_iff)
      moreover from names declare_all_names [OF r]
      have "set handle_names \<subseteq> fst ` set (typedefs ?st)" by auto
      ultimately have "\<exists>n. declare_all (native_os os) ?st = Inl (Redefinition n)"
        using declare_all_redefinition [OF assms(2)] by blast
      with r show ?thesis by (simp add: compile_omit_guards)
    qed
  qed
  from one two both show ?thesis
    by (simp add: compile_x11_h)
qed

text \<open>
  The hypotheses hold on a build machine with Xlib and GLX. There the header without
  \<open>GLFW_INCLUDE_NONE\<close> stops at the redefinition of \<open>Display\<close>, the header without
  \<open>GLFW_NATIVE_INCLUDE_NONE\<close> at the redefinition of \<open>GLXContext\<close>, and the header
  without both at the redefinition of \<open>Display\<close>.
\<close>

theorem omitted_guards_fail_to_compile_witness:
  "self_contained handle_names (platform_os xlib_glx_os) \<and>
   self_contained handle_names (native_os xlib_glx_os) \<and>
   conflicting (declared_typedefs x11_h) (platform_os xlib_glx_os) \<and>
   conflicting (declared_typedefs x11_h) (native_os xlib_glx_os) \<and>
   conflicting (declared_typedefs x11_h) (platform_os xlib_glx_os @ native_os xlib_glx_os) \<and>
   compile xlib_glx_os (omit_macro ''GLFW_INCLUDE_NONE'' x11_h) =
     Inl (Redefinition ''Display'') \<and>
   compile xlib_glx_os (omit_macro ''GLFW_NATIVE_INCLUDE_NONE'' x11_h) =
     Inl (Redefinition ''GLXContext'') \<and>
   compile xlib_glx_os (omit_guards x11_h) = Inl (Redefinition ''Display'') \<and>
   compile xlib_glx_os x11_h = Inr x11_final"
proof -
  have s1: "self_contained handle_names (platform_os xlib_glx_os)"
    and s2: "self_contained handle_names (native_os xlib_glx_os)"
    by (simp_all add: xlib_glx_os_def)
  have c1: "conflicting (declared_typedefs x11_h) (platform_os xlib_glx_os)"
    and c2: "conflicting (declared_typedefs x11_h) (native_os xlib_glx_os)"
    and c3: "conflicting (declared_typedefs x11_h)
               (platform_os xlib_glx_os @ native_os xlib_glx_os)"
    by (simp_all add: conflicting_def xlib_glx_os_def x11_h_def)
  note t = omitted_guards_fail_to_compile [OF s1 s2]
  from t c1 obtain n1
    where e1: "compile xlib_glx_os (omit_macro ''GLFW_INCLUDE_NONE'' x11_h) =
      Inl (Redefinition n1)"
    by blast
  from t c2 obtain n2
    where e2: "compile xlib_glx_os (omit_macro ''GLFW_NATIVE_INCLUDE_NONE'' x11_h) =
      Inl (Redefinition n2)"
    by blast
  from t c3 obtain n3
    where e3: "compile xlib_glx_os (omit_guards x11_h) = Inl (Redefinition n3)"
    by blast
  from t have ok: "compile xlib_glx_os x11_h = Inr x11_final"
    by blast
  have "n1 = ''Display''"
    using e1
    by (simp add: compile_omit_include_none xlib_glx_os_def handles_declared_def
        declare_typedef_def x11_typedefs_def)
  moreover have "n2 = ''GLXContext''"
    using e2
    by (simp add: compile_omit_native_include_none xlib_glx_os_def handles_declared_def
        declare_typedef_def x11_typedefs_def)
  moreover have "n3 = ''Display''"
    using e3
    by (simp add: compile_omit_guards xlib_glx_os_def before_includes_def
        handles_declared_def declare_typedef_def x11_typedefs_def)
  ultimately show ?thesis
    using s1 s2 c1 c2 c3 e1 e2 e3 ok by simp
qed

text \<open>C9, as stated, fails: the file does not have 14 lines.\<close>

theorem line_count_is_not_14: "length (lines_of x11_h_text) \<noteq> 14"
  by (simp add: x11_h_text_lines) (simp add: x11_h_def)

text \<open>
  C9, amended: the file is 15 lines of type aliasing and macro configuration, with 14
  newline characters (no newline ends the last line). Its lines are the concrete syntax
  of six typedefs, four macro definitions, two include directives and three blank lines.
\<close>

theorem fifteen_lines_fourteen_newlines:
  "length (lines_of x11_h_text) = 15 \<and>
   count_list x11_h_text newline = 14 \<and>
   lines_of x11_h_text = map render x11_h \<and>
   map kind_of x11_h =
     [KTypedef, KTypedef, KTypedef, KTypedef, KBlank, KTypedef, KTypedef, KBlank,
      KDefine, KDefine, KDefine, KDefine, KBlank, KInclude, KInclude]"
proof -
  have "count_list x11_h_text newline = 14"
    by (simp add: x11_h_text_def newline_def)
  moreover have "length (lines_of x11_h_text) = 15"
    by (simp add: x11_h_text_lines) (simp add: x11_h_def)
  moreover have "map kind_of x11_h =
     [KTypedef, KTypedef, KTypedef, KTypedef, KBlank, KTypedef, KTypedef, KBlank,
      KDefine, KDefine, KDefine, KDefine, KBlank, KInclude, KInclude]"
    by (simp add: x11_h_def)
  ultimately show ?thesis
    using x11_h_text_lines by simp
qed

text \<open>
  C10: \<open>Display\<close> alone is declared as \<open>void\<close> and the other five handles as
  \<open>void*\<close>. An object of type \<open>Display\<close> cannot be defined (the front end rejects it
  as incomplete), an object of type \<open>Display*\<close> can, and \<open>Display*\<close> resolves to
  \<open>void*\<close>.
\<close>

theorem display_is_void_others_void_pointer:
  "declared_typedefs x11_h =
     [(''Display'', CVoid), (''RRCrtc'', CPtr CVoid), (''RROutput'', CPtr CVoid),
      (''Window'', CPtr CVoid), (''GLXContext'', CPtr CVoid), (''GLXWindow'', CPtr CVoid)] \<and>
   compile os x11_h = Inr x11_final \<and>
   typedefs x11_final = declared_typedefs x11_h \<and>
   resolve (typedefs x11_final) (CPtr (CName ''Display'')) = Some (CPtr CVoid) \<and>
   compile os (x11_h @ [ObjDef (CName ''Display'') ''d'']) = Inl (IncompleteObject ''d'') \<and>
   compile os (x11_h @ [ObjDef (CPtr (CName ''Display'')) ''d'']) =
     Inr (x11_final\<lparr>definitions := [''d'']\<rparr>)"
proof -
  have a: "declared_typedefs x11_h = x11_typedefs"
    by (simp add: x11_h_def x11_typedefs_def)
  have b: "resolve (typedefs x11_final) (CPtr (CName ''Display'')) = Some (CPtr CVoid)"
    by (simp add: x11_final_def x11_typedefs_def)
  have c: "compile os (x11_h @ [ObjDef (CName ''Display'') ''d'']) =
      Inl (IncompleteObject ''d'')"
    using compile_x11_h [of os]
    by (simp add: compile_def run_append) (simp add: x11_final_def x11_typedefs_def)
  have d: "compile os (x11_h @ [ObjDef (CPtr (CName ''Display'')) ''d'']) =
      Inr (x11_final\<lparr>definitions := [''d'']\<rparr>)"
    using compile_x11_h [of os]
    by (simp add: compile_def run_append) (simp add: x11_final_def x11_typedefs_def)
  from a b c d show ?thesis
    by (simp add: compile_x11_h) (simp add: x11_final_def x11_typedefs_def)
qed

end
